theory Spec2Isabelle
  imports Complex_Main "HOL-Library.Word"
begin

section \<open>MediGuide: chat service, speech synthesis, realtime voice session, view controller\<close>

text \<open>
  A shallow embedding of the TypeScript sources: \<^verbatim>\<open>services/geminiService.ts\<close>
  (\<^verbatim>\<open>createChatSession\<close>, \<^verbatim>\<open>sendMessageToGemini\<close>, \<^verbatim>\<open>generateSpeech\<close>),
  \<^verbatim>\<open>services/liveService.ts\<close> (class \<^verbatim>\<open>LiveSession\<close>) and the view controller
  \<^verbatim>\<open>App\<close>.

  Conventions. A JavaScript value that may be \<^verbatim>\<open>undefined\<close> is an \<open>option\<close>; a thrown
  exception or a rejected promise is the \<open>Inl\<close> of a sum; calls into the external SDK and the
  browser are parameters of the functions that make them, so every theorem holds for whatever
  those calls return. JavaScript numbers that hold times and samples are modelled as reals.
\<close>

subsection \<open>Values shared by the services\<close>

datatype js_error = TypeError | RangeError | NotSupportedError | Thrown string

type_synonym byte = "8 word"

text \<open>Truthiness of a string-valued expression: \<^verbatim>\<open>undefined\<close> and \<^verbatim>\<open>""\<close> are falsy.\<close>

definition truthy :: "string option \<Rightarrow> bool" where
  "truthy v = (case v of None \<Rightarrow> False | Some s \<Rightarrow> s \<noteq> [])"

text \<open>\<^verbatim>\<open>Array.prototype.map\<close> with a callback that may throw: the first exception ends the call.\<close>

fun array_map :: "('a \<Rightarrow> js_error + 'b) \<Rightarrow> 'a list \<Rightarrow> js_error + 'b list" where
  "array_map f [] = Inr []"
| "array_map f (x # xs) =
     (case f x of
        Inl e \<Rightarrow> Inl e
      | Inr y \<Rightarrow> (case array_map f xs of Inl e \<Rightarrow> Inl e | Inr ys \<Rightarrow> Inr (y # ys)))"

subsection \<open>The JavaScript \<open>Map\<close>, in insertion order\<close>

text \<open>
  A \<^verbatim>\<open>Map\<close> keeps its entries in the order in which their keys were first inserted;
  \<^verbatim>\<open>set\<close> on a key that is present replaces the value and leaves the position alone.
  \<^verbatim>\<open>new Map(entries)\<close> sets the entries one after the other, starting from the empty map.
\<close>

fun Map_set :: "('k \<times> 'v) list \<Rightarrow> 'k \<Rightarrow> 'v \<Rightarrow> ('k \<times> 'v) list" where
  "Map_set [] k v = [(k, v)]"
| "Map_set ((k', v') # m) k v =
     (if k' = k then (k, v) # m else (k', v') # Map_set m k v)"

definition new_Map :: "('k \<times> 'v) list \<Rightarrow> ('k \<times> 'v) list" where
  "new_Map entries = fold (\<lambda>(k, v) m. Map_set m k v) entries []"

definition Map_values :: "('k \<times> 'v) list \<Rightarrow> 'v list" where
  "Map_values m = map snd m"

subsection \<open>\<^verbatim>\<open>geminiService.ts\<close>: the chat call\<close>

text \<open>
  The part of the SDK's response that the services read: \<^verbatim>\<open>result.text\<close>,
  \<^verbatim>\<open>candidates?.[0]?.groundingMetadata?.groundingChunks\<close>, whose chunks carry
  \<^verbatim>\<open>web?.uri\<close> and \<^verbatim>\<open>web?.title\<close>, and
  \<^verbatim>\<open>candidates?.[0]?.content?.parts?.[0]?.inlineData?.data\<close>.
\<close>

record web_chunk =
  web_uri :: "string option"
  web_title :: "string option"

record grounding_chunk =
  web :: "web_chunk option"

record grounding_metadata =
  groundingChunks :: "grounding_chunk list option"

text \<open>
  Inline data is a base64 string (\<^verbatim>\<open>inlineData?.data\<close>); a content has optional parts.
\<close>

record inline_blob =
  data :: "string option"

record Part =
  inlineData :: "inline_blob option"

record Content =
  parts :: "Part list option"

record Candidate =
  content :: "Content option"
  groundingMetadata :: "grounding_metadata option"

record GenerateContentResponse =
  response_text :: "string option"
  candidates :: "Candidate list option"

text \<open>
  The objects built by \<^verbatim>\<open>.map(chunk => ({title: chunk.web.title, uri: chunk.web.uri}))\<close>.
  They are untyped in the source (\<^verbatim>\<open>any\<close>), so each field is whatever the chunk held.
\<close>

record GroundingSource =
  title :: "string option"
  uri :: "string option"

record send_result =
  reply_text :: "string option"
  sources :: "GroundingSource list"

text \<open>\<^verbatim>\<open>result.candidates?.[0]?.groundingMetadata?.groundingChunks || []\<close>\<close>

definition groundingChunks_of :: "GenerateContentResponse \<Rightarrow> grounding_chunk list" where
  "groundingChunks_of result =
     (case candidates result of
        None \<Rightarrow> []
      | Some [] \<Rightarrow> []
      | Some (c # _) \<Rightarrow>
          (case groundingMetadata c of
             None \<Rightarrow> []
           | Some gm \<Rightarrow> (case groundingChunks gm of None \<Rightarrow> [] | Some cs \<Rightarrow> cs)))"

text \<open>The filter predicate \<^verbatim>\<open>chunk.web?.uri && chunk.web?.title\<close>.\<close>

definition has_uri_and_title :: "grounding_chunk \<Rightarrow> bool" where
  "has_uri_and_title chunk =
     (truthy (case web chunk of None \<Rightarrow> None | Some w \<Rightarrow> web_uri w) \<and>
      truthy (case web chunk of None \<Rightarrow> None | Some w \<Rightarrow> web_title w))"

text \<open>
  The map callback reads \<^verbatim>\<open>chunk.web.title\<close> without optional chaining: on a chunk with no
  \<^verbatim>\<open>web\<close> it throws a \<^verbatim>\<open>TypeError\<close>.
\<close>

definition to_source :: "grounding_chunk \<Rightarrow> js_error + GroundingSource" where
  "to_source chunk =
     (case web chunk of
        None \<Rightarrow> Inl TypeError
      | Some w \<Rightarrow> Inr \<lparr>title = web_title w, uri = web_uri w\<rparr>)"

text \<open>\<^verbatim>\<open>Array.from(new Map(sources.map(s => [s.uri, s])).values())\<close>\<close>

definition uniqueSources :: "GroundingSource list \<Rightarrow> GroundingSource list" where
  "uniqueSources srcs = Map_values (new_Map (map (\<lambda>s. (uri s, s)) srcs))"

text \<open>
  \<^verbatim>\<open>sendMessageToGemini(chat, message)\<close>. The first argument stands for the SDK's
  \<^verbatim>\<open>chat.sendMessage\<close>; the \<^verbatim>\<open>catch\<close> block logs and rethrows.
\<close>

definition sendMessageToGemini ::
  "('chat \<Rightarrow> string \<Rightarrow> js_error + GenerateContentResponse) \<Rightarrow> 'chat \<Rightarrow> string \<Rightarrow> js_error + send_result"
where
  "sendMessageToGemini sendMessage chat message =
     (case sendMessage chat message of
        Inl e \<Rightarrow> Inl e
      | Inr result \<Rightarrow>
          (case array_map to_source (filter has_uri_and_title (groundingChunks_of result)) of
             Inl e \<Rightarrow> Inl e
           | Inr srcs \<Rightarrow> Inr \<lparr>reply_text = response_text result, sources = uniqueSources srcs\<rparr>))"

text \<open>
  The order of first occurrences in a list, as the reference the deduplication is compared with:
  each element once, placed where it is first seen.
\<close>

fun first_occurrences :: "'a list \<Rightarrow> 'a list" where
  "first_occurrences [] = []"
| "first_occurrences (x # xs) = x # first_occurrences (removeAll x xs)"

subsection \<open>Raw PCM and audio buffers\<close>

text \<open>
  A single-channel \<^verbatim>\<open>AudioBuffer\<close>: its sample rate and its \<^verbatim>\<open>getChannelData(0)\<close>. The
  Web Audio attribute \<^verbatim>\<open>duration\<close> is the number of frames over the sample rate.
\<close>

record AudioBuffer =
  sampleRate :: nat
  channelData :: "real list"

definition duration :: "AudioBuffer \<Rightarrow> real" where
  "duration b = real (length (channelData b)) / real (sampleRate b)"

datatype AudioContext = AudioContext nat

text \<open>
  \<^verbatim>\<open>new Int16Array(audioBytes.buffer)\<close>: a view of the bytes as 16-bit signed integers, low
  byte first (the byte order of every platform the page runs on); it throws a
  \<^verbatim>\<open>RangeError\<close> when the byte length is odd.
\<close>

fun int16_view :: "byte list \<Rightarrow> 16 word list" where
  "int16_view (lo # hi # bs) = or (ucast lo) (push_bit 8 (ucast hi)) # int16_view bs"
| "int16_view _ = []"

definition new_Int16Array :: "byte list \<Rightarrow> js_error + 16 word list" where
  "new_Int16Array bytes =
     (if odd (length bytes) then Inl RangeError else Inr (int16_view bytes))"

text \<open>
  \<^verbatim>\<open>audioContext.createBuffer(1, length, rate)\<close>: a silent buffer; the Web Audio API throws
  a \<^verbatim>\<open>NotSupportedError\<close> for a length of zero.
\<close>

definition createBuffer :: "nat \<Rightarrow> nat \<Rightarrow> js_error + AudioBuffer" where
  "createBuffer len rate =
     (if len = 0 then Inl NotSupportedError
      else Inr \<lparr>sampleRate = rate, channelData = replicate len 0\<rparr>)"

text \<open>
  The loop \<^verbatim>\<open>for (let i = 0; i < dataInt16.length; i++) channelData[i] = dataInt16[i] / 32768.0\<close>.
  The quotient of a 16-bit integer by \<open>2\<^sup>1\<^sup>5\<close> is exact in a 32-bit float.
\<close>

definition fill_channelData :: "16 word list \<Rightarrow> real list \<Rightarrow> real list" where
  "fill_channelData dataInt16 channel =
     fold (\<lambda>i ch. ch[i := real_of_int (sint (dataInt16 ! i)) / 32768])
       [0..<length dataInt16] channel"

text \<open>Lines 267 to 273 of \<^verbatim>\<open>generateSpeech\<close>: raw PCM bytes to a 24 kHz buffer.\<close>

definition pcm_to_buffer :: "byte list \<Rightarrow> js_error + AudioBuffer" where
  "pcm_to_buffer audioBytes =
     (case new_Int16Array audioBytes of
        Inl e \<Rightarrow> Inl e
      | Inr dataInt16 \<Rightarrow>
          (case createBuffer (length dataInt16) 24000 of
             Inl e \<Rightarrow> Inl e
           | Inr buffer \<Rightarrow>
               Inr (buffer\<lparr>channelData := fill_channelData dataInt16 (channelData buffer)\<rparr>)))"

text \<open>
  Modelled from the spec: \<^verbatim>\<open>createPcmBlob\<close> of \<^verbatim>\<open>services/audioUtils.ts\<close> is imported by
  \<^verbatim>\<open>liveService.ts\<close> but is not among the sources. The spec (4.1, \<^verbatim>\<open>encodeForUpload\<close>)
  says: each sample is scaled to a 16-bit signed integer, \<^verbatim>\<open>round(sample * 32767)\<close>, clamped
  to the 16-bit signed range, and packed little-endian. For a 32-bit float sample the
  product with 32767 is exact in a double, so the real product is the computed one.
\<close>

definition encode_sample :: "real \<Rightarrow> 16 word" where
  "encode_sample x = word_of_int (max (- 32768) (min 32767 (round (x * 32767))))"

definition encodeForUpload :: "real list \<Rightarrow> byte list" where
  "encodeForUpload samples =
     concat (map (\<lambda>x. [ucast (encode_sample x), ucast (drop_bit 8 (encode_sample x))]) samples)"

subsection \<open>\<^verbatim>\<open>geminiService.ts\<close>: speech synthesis\<close>

text \<open>
  What \<^verbatim>\<open>generateSpeech\<close> calls outside the sources: the SDK's
  \<^verbatim>\<open>ai.models.generateContent\<close> (as a function of the text; the model and voice are
  constants), the \<^verbatim>\<open>AudioContext\<close> constructor, and \<^verbatim>\<open>decodeAudio\<close> of
  \<^verbatim>\<open>audioUtils.ts\<close> (base64 to bytes). Each may throw.
\<close>

record speech_env =
  generateContent :: "string \<Rightarrow> js_error + GenerateContentResponse"
  newAudioContext :: "nat \<Rightarrow> js_error + AudioContext"
  decodeAudio :: "string \<Rightarrow> js_error + byte list"

text \<open>\<^verbatim>\<open>parts[0]?.inlineData?.data\<close> on an array of parts.\<close>

definition first_part_data :: "Part list \<Rightarrow> string option" where
  "first_part_data ps =
     (case ps of
        [] \<Rightarrow> None
      | p # _ \<Rightarrow> (case inlineData p of None \<Rightarrow> None | Some b \<Rightarrow> data b))"

text \<open>\<^verbatim>\<open>response.candidates?.[0]?.content?.parts?.[0]?.inlineData?.data\<close>\<close>

definition speech_payload :: "GenerateContentResponse \<Rightarrow> string option" where
  "speech_payload response =
     (case candidates response of
        None \<Rightarrow> None
      | Some [] \<Rightarrow> None
      | Some (c # _) \<Rightarrow>
          (case content c of
             None \<Rightarrow> None
           | Some ct \<Rightarrow> (case parts ct of None \<Rightarrow> None | Some ps \<Rightarrow> first_part_data ps)))"

text \<open>The body of the \<^verbatim>\<open>try\<close> block: \<open>Inr None\<close> is \<^verbatim>\<open>return null\<close>.\<close>

definition generateSpeech_try :: "speech_env \<Rightarrow> string \<Rightarrow> js_error + AudioBuffer option" where
  "generateSpeech_try env txt =
     (case generateContent env txt of
        Inl e \<Rightarrow> Inl e
      | Inr response \<Rightarrow>
          (case speech_payload response of
             None \<Rightarrow> Inr None
           | Some base64Audio \<Rightarrow>
               if base64Audio = [] then Inr None
               else
                 (case newAudioContext env 24000 of
                    Inl e \<Rightarrow> Inl e
                  | Inr audioContext \<Rightarrow>
                      (case decodeAudio env base64Audio of
                         Inl e \<Rightarrow> Inl e
                       | Inr audioBytes \<Rightarrow>
                           (case pcm_to_buffer audioBytes of
                              Inl e \<Rightarrow> Inl e
                            | Inr buffer \<Rightarrow> Inr (Some buffer))))))"

text \<open>
  \<^verbatim>\<open>generateSpeech(text)\<close>: the \<^verbatim>\<open>catch\<close> block logs and returns \<^verbatim>\<open>null\<close>. The result
  type keeps the \<open>Inl\<close> of a rejected promise, so that never rejecting is a property to prove.
\<close>

definition generateSpeech :: "speech_env \<Rightarrow> string \<Rightarrow> js_error + AudioBuffer option" where
  "generateSpeech env txt =
     (case generateSpeech_try env txt of Inl e \<Rightarrow> Inr None | Inr r \<Rightarrow> Inr r)"

subsection \<open>\<^verbatim>\<open>liveService.ts\<close>: the realtime voice session\<close>

text \<open>
  The fields of class \<^verbatim>\<open>LiveSession\<close>; \<open>None\<close> is \<^verbatim>\<open>null\<close>. A media stream is the list
  of its tracks. What a handler does to the browser and to its caller is the list of effects it
  returns, in the order in which they happen.
\<close>

datatype MediaStream = MediaStream "nat list"

datatype ScriptProcessorNode = ScriptProcessorNode nat

datatype MediaStreamAudioSourceNode = MediaStreamAudioSourceNode MediaStream

datatype effect =
    OnOpen
  | OnError js_error
  | OnClose
  | OnAudioData AudioBuffer
  | Start AudioBuffer real
  | ConnectInput MediaStreamAudioSourceNode ScriptProcessorNode
  | DisconnectProcessor ScriptProcessorNode
  | DisconnectSource MediaStreamAudioSourceNode
  | StopTrack nat
  | CloseContext AudioContext

record 'session LiveSession =
  inputContext :: "AudioContext option"
  outputContext :: "AudioContext option"
  stream :: "MediaStream option"
  processor :: "ScriptProcessorNode option"
  source :: "MediaStreamAudioSourceNode option"
  nextStartTime :: real
  session :: "'session option"
  isActive :: bool

text \<open>The field initialisers of the class.\<close>

definition new_LiveSession :: "'session LiveSession" where
  "new_LiveSession =
     \<lparr>inputContext = None, outputContext = None, stream = None, processor = None,
      source = None, nextStartTime = 0, session = None, isActive = False\<rparr>"

fun getTracks :: "MediaStream \<Rightarrow> nat list" where
  "getTracks (MediaStream ts) = ts"

text \<open>\<^verbatim>\<open>cleanup()\<close>: each resource that is held is released and its field set to \<^verbatim>\<open>null\<close>.\<close>

definition cleanup :: "'session LiveSession \<Rightarrow> 'session LiveSession \<times> effect list" where
  "cleanup s =
     (s\<lparr>processor := None, source := None, stream := None,
        inputContext := None, outputContext := None\<rparr>,
      (case processor s of None \<Rightarrow> [] | Some p \<Rightarrow> [DisconnectProcessor p]) @
      (case source s of None \<Rightarrow> [] | Some n \<Rightarrow> [DisconnectSource n]) @
      (case stream s of None \<Rightarrow> [] | Some st \<Rightarrow> map StopTrack (getTracks st)) @
      (case inputContext s of None \<Rightarrow> [] | Some c \<Rightarrow> [CloseContext c]) @
      (case outputContext s of None \<Rightarrow> [] | Some c \<Rightarrow> [CloseContext c]))"

text \<open>\<^verbatim>\<open>disconnect()\<close>: the liveness flag is cleared, then \<^verbatim>\<open>cleanup()\<close>.\<close>

definition disconnect :: "'session LiveSession \<Rightarrow> 'session LiveSession \<times> effect list" where
  "disconnect s = cleanup (s\<lparr>isActive := False\<rparr>)"

text \<open>
  \<^verbatim>\<open>startAudioInput\<close>: the capture graph is built when the input context and the stream are
  there. (The \<^verbatim>\<open>onaudioprocess\<close> callback it installs sends chunks upstream and touches no
  field.)
\<close>

definition startAudioInput :: "'session LiveSession \<Rightarrow> 'session LiveSession \<times> effect list" where
  "startAudioInput s =
     (case (inputContext s, stream s) of
        (Some ic, Some st) \<Rightarrow>
          (s\<lparr>source := Some (MediaStreamAudioSourceNode st),
             processor := Some (ScriptProcessorNode 4096)\<rparr>,
           [ConnectInput (MediaStreamAudioSourceNode st) (ScriptProcessorNode 4096)])
      | _ \<Rightarrow> (s, []))"

text \<open>The four callbacks handed to \<^verbatim>\<open>liveClient.connect\<close>, except \<^verbatim>\<open>onmessage\<close>.\<close>

definition onopen :: "'session LiveSession \<Rightarrow> 'session LiveSession \<times> effect list" where
  "onopen s =
     (fst (startAudioInput (s\<lparr>isActive := True\<rparr>)),
      OnOpen # snd (startAudioInput (s\<lparr>isActive := True\<rparr>)))"

definition onerror :: "js_error \<Rightarrow> 'session LiveSession \<Rightarrow> 'session LiveSession \<times> effect list" where
  "onerror err s = (s, [OnError err])"

definition onclose :: "'session LiveSession \<Rightarrow> 'session LiveSession \<times> effect list" where
  "onclose s =
     (fst (cleanup (s\<lparr>isActive := False\<rparr>)),
      OnClose # snd (cleanup (s\<lparr>isActive := False\<rparr>)))"

text \<open>The \<^verbatim>\<open>catch\<close> block of \<^verbatim>\<open>connect()\<close>.\<close>

definition connect_catch ::
  "js_error \<Rightarrow> 'session LiveSession \<Rightarrow> 'session LiveSession \<times> effect list"
where
  "connect_catch error s = (fst (cleanup s), OnError error # snd (cleanup s))"

text \<open>
  What \<^verbatim>\<open>connect()\<close> calls outside the sources: the \<^verbatim>\<open>AudioContext\<close> constructor,
  \<^verbatim>\<open>navigator.mediaDevices.getUserMedia\<close> and the SDK's \<^verbatim>\<open>liveClient.connect\<close>.
\<close>

record 'session live_env =
  live_newAudioContext :: "nat \<Rightarrow> js_error + AudioContext"
  getUserMedia :: "js_error + MediaStream"
  live_connect :: "js_error + 'session"

text \<open>\<^verbatim>\<open>connect()\<close>: the fields assigned before a failure keep their values until the
  \<^verbatim>\<open>catch\<close> block runs.\<close>

definition connect ::
  "'session live_env \<Rightarrow> 'session LiveSession \<Rightarrow> 'session LiveSession \<times> effect list"
where
  "connect env s =
     (case live_newAudioContext env 16000 of
        Inl e \<Rightarrow> connect_catch e s
      | Inr ic \<Rightarrow>
          (case live_newAudioContext env 24000 of
             Inl e \<Rightarrow> connect_catch e (s\<lparr>inputContext := Some ic\<rparr>)
           | Inr oc \<Rightarrow>
               (case getUserMedia env of
                  Inl e \<Rightarrow> connect_catch e (s\<lparr>inputContext := Some ic, outputContext := Some oc\<rparr>)
                | Inr st \<Rightarrow>
                    (case live_connect env of
                       Inl e \<Rightarrow>
                         connect_catch e
                           (s\<lparr>inputContext := Some ic, outputContext := Some oc, stream := Some st\<rparr>)
                     | Inr sess \<Rightarrow>
                         (s\<lparr>inputContext := Some ic, outputContext := Some oc, stream := Some st,
                            session := Some sess\<rparr>, [])))))"

text \<open>
  \<^verbatim>\<open>playAudio(buffer)\<close>; the first argument is the reading of
  \<^verbatim>\<open>outputContext.currentTime\<close>. The cursor advances by the real sum: the rounding of the
  addition of two doubles is not modelled.
\<close>

definition playAudio ::
  "real \<Rightarrow> AudioBuffer \<Rightarrow> 'session LiveSession \<Rightarrow> 'session LiveSession \<times> effect list"
where
  "playAudio currentTime buffer s =
     (case outputContext s of
        None \<Rightarrow> (s, [])
      | Some _ \<Rightarrow>
          (s\<lparr>nextStartTime := max (nextStartTime s) currentTime + duration buffer\<rparr>,
           [Start buffer (max (nextStartTime s) currentTime)]))"

text \<open>An inbound message: \<^verbatim>\<open>serverContent?.modelTurn\<close> and \<^verbatim>\<open>serverContent?.interrupted\<close>.\<close>

record LiveServerContent =
  modelTurn :: "Content option"
  interrupted :: "bool option"

record LiveServerMessage =
  serverContent :: "LiveServerContent option"

text \<open>
  \<^verbatim>\<open>message.serverContent?.modelTurn?.parts[0]?.inlineData?.data\<close>: there is no \<^verbatim>\<open>?.\<close>
  after \<^verbatim>\<open>parts\<close>, so a model turn without parts throws a \<^verbatim>\<open>TypeError\<close>.
\<close>

definition live_payload :: "LiveServerMessage \<Rightarrow> js_error + string option" where
  "live_payload message =
     (case serverContent message of
        None \<Rightarrow> Inr None
      | Some sc \<Rightarrow>
          (case modelTurn sc of
             None \<Rightarrow> Inr None
           | Some mt \<Rightarrow>
               (case parts mt of None \<Rightarrow> Inl TypeError | Some ps \<Rightarrow> Inr (first_part_data ps))))"

text \<open>\<^verbatim>\<open>message.serverContent?.interrupted\<close> as a condition.\<close>

definition is_interrupted :: "LiveServerMessage \<Rightarrow> bool" where
  "is_interrupted message =
     (case serverContent message of None \<Rightarrow> False | Some sc \<Rightarrow> interrupted sc = Some True)"

text \<open>
  \<^verbatim>\<open>handleServerMessage(message)\<close>. The first argument stands for \<^verbatim>\<open>decodeAudio\<close> followed by
  \<^verbatim>\<open>decodePcmAudioData\<close>, both of \<^verbatim>\<open>audioUtils.ts\<close>, which is not among the sources; the
  second is the reading of the output clock. Every point that can throw comes before the first
  assignment, so a rejected call (\<open>Inl\<close>) has changed nothing. The call is one step: the
  continuation after the \<^verbatim>\<open>await\<close> runs before the next message is delivered.
\<close>

definition handleServerMessage ::
  "(string \<Rightarrow> js_error + AudioBuffer) \<Rightarrow> real \<Rightarrow> LiveServerMessage \<Rightarrow> 'session LiveSession \<Rightarrow>
     js_error + 'session LiveSession \<times> effect list"
where
  "handleServerMessage decode currentTime message s =
     (case live_payload message of
        Inl e \<Rightarrow> Inl e
      | Inr base64Audio \<Rightarrow>
          (case (if truthy base64Audio \<and> outputContext s \<noteq> None
                 then (case decode (case base64Audio of Some b \<Rightarrow> b | None \<Rightarrow> []) of
                         Inl e \<Rightarrow> Inl e
                       | Inr audioBuffer \<Rightarrow>
                           Inr (fst (playAudio currentTime audioBuffer s),
                                snd (playAudio currentTime audioBuffer s) @ [OnAudioData audioBuffer]))
                 else Inr (s, [])) of
             Inl e \<Rightarrow> Inl e
           | Inr (s1, effects) \<Rightarrow>
               Inr (if is_interrupted message then s1\<lparr>nextStartTime := 0\<rparr> else s1, effects)))"

text \<open>
  A run of the session over inbound messages, each with the clock reading at which it is
  handled; a rejected call is an unhandled rejection and the session goes on.
\<close>

fun handle_all ::
  "(string \<Rightarrow> js_error + AudioBuffer) \<Rightarrow> (real \<times> LiveServerMessage) list \<Rightarrow> 'session LiveSession \<Rightarrow>
     'session LiveSession \<times> effect list"
where
  "handle_all decode [] s = (s, [])"
| "handle_all decode ((t, m) # ms) s =
     (case handleServerMessage decode t m s of
        Inl e \<Rightarrow> handle_all decode ms s
      | Inr (s1, effects) \<Rightarrow>
          (fst (handle_all decode ms s1), effects @ snd (handle_all decode ms s1)))"

text \<open>The buffers started, with their start times, in the order of the calls to \<^verbatim>\<open>start\<close>.\<close>

fun scheduled :: "effect list \<Rightarrow> (real \<times> AudioBuffer) list" where
  "scheduled [] = []"
| "scheduled (Start b t # es) = (t, b) # scheduled es"
| "scheduled (_ # es) = scheduled es"

text \<open>Each buffer starts no earlier than the end of the one before it.\<close>

fun back_to_back :: "(real \<times> AudioBuffer) list \<Rightarrow> bool" where
  "back_to_back ((t1, b1) # (t2, b2) # rest) =
     (t1 + duration b1 \<le> t2 \<and> back_to_back ((t2, b2) # rest))"
| "back_to_back _ = True"

subsection \<open>\<^verbatim>\<open>geminiService.ts\<close>: creating a chat session\<close>

datatype ModelMode = Fast | Standard | Thinking

record chat_config =
  systemInstruction :: string
  googleSearch :: bool
  thinkingBudget :: "nat option"

record chat_params =
  model :: string
  config :: chat_config

definition MODEL_MAP :: "ModelMode \<Rightarrow> string" where
  "MODEL_MAP m =
     (case m of
        Fast \<Rightarrow> ''gemini-2.5-flash-lite''
      | Standard \<Rightarrow> ''gemini-2.5-flash''
      | Thinking \<Rightarrow> ''gemini-3-pro-preview'')"

text \<open>
  What the chat side calls outside \<^verbatim>\<open>geminiService.ts\<close>: the SDK's \<^verbatim>\<open>ai.chats.create\<close> and
  \<^verbatim>\<open>chat.sendMessage\<close>, and the constant \<^verbatim>\<open>SYSTEM_INSTRUCTION\<close> of \<^verbatim>\<open>constants.ts\<close>.
\<close>

record 'chat sdk =
  chats_create :: "chat_params \<Rightarrow> js_error + 'chat"
  sendMessage :: "'chat \<Rightarrow> string \<Rightarrow> js_error + GenerateContentResponse"
  SYSTEM_INSTRUCTION :: string

text \<open>
  \<^verbatim>\<open>createChatSession(mode)\<close>: the configuration carries the thinking budget only for the
  thinking mode.
\<close>

definition createChatSession :: "'chat sdk \<Rightarrow> ModelMode \<Rightarrow> js_error + 'chat" where
  "createChatSession ai m =
     chats_create ai
       \<lparr>model = MODEL_MAP m,
        config = \<lparr>systemInstruction = SYSTEM_INSTRUCTION ai, googleSearch = True,
                  thinkingBudget = (if m = Thinking then Some 32768 else None)\<rparr>\<rparr>"

subsection \<open>The view controller \<^verbatim>\<open>App\<close>\<close>

text \<open>
  A transcript entry (\<^verbatim>\<open>types.ts\<close>). The id is the decimal numeral of a millisecond clock
  reading and is kept as that number; the optional fields are options.
\<close>

datatype Role = User | Model

record Message =
  msg_id :: int
  role :: Role
  msg_text :: string
  timestamp :: int
  isError :: "bool option"
  msg_sources :: "GroundingSource list option"

text \<open>
  The state of the component that the chat handlers read and write: five \<^verbatim>\<open>useState\<close> cells and
  \<^verbatim>\<open>chatSessionRef\<close>. A handler sees the state of the latest render; the theme, the disclaimer
  and the voice overlay are independent of these and are left out.
\<close>

record 'chat App =
  messages :: "Message list"
  inputValue :: string
  isLoading :: bool
  isInitializing :: bool
  mode :: ModelMode
  chatSessionRef :: "'chat option"

definition initial_App :: "'chat App" where
  "initial_App =
     \<lparr>messages = [], inputValue = [], isLoading = False, isInitializing = True,
      mode = Standard, chatSessionRef = None\<rparr>"

text \<open>
  \<^verbatim>\<open>initChat\<close>: when \<^verbatim>\<open>createChatSession\<close> throws, the assignment has not happened and the
  \<^verbatim>\<open>catch\<close> block only logs.
\<close>

definition initChat :: "'chat sdk \<Rightarrow> 'chat App \<Rightarrow> 'chat App" where
  "initChat ai s =
     (case createChatSession ai (mode s) of
        Inl e \<Rightarrow> s
      | Inr c \<Rightarrow> s\<lparr>chatSessionRef := Some c, messages := [], isInitializing := False\<rparr>)"

text \<open>
  \<^verbatim>\<open>setMode(m)\<close> from a mode button. Setting the value the state already has causes no render;
  a new value gives \<^verbatim>\<open>initChat\<close> a new identity (its dependency is \<^verbatim>\<open>mode\<close>), and the effect
  that depends on it runs it.
\<close>

definition setMode :: "'chat sdk \<Rightarrow> ModelMode \<Rightarrow> 'chat App \<Rightarrow> 'chat App" where
  "setMode ai m s = (if m = mode s then s else initChat ai (s\<lparr>mode := m\<rparr>))"

text \<open>\<^verbatim>\<open>handleReset\<close>; the flag is the answer to \<^verbatim>\<open>window.confirm\<close>.\<close>

definition handleReset :: "'chat sdk \<Rightarrow> bool \<Rightarrow> 'chat App \<Rightarrow> 'chat App" where
  "handleReset ai confirmed s = (if confirmed then initChat ai s else s)"

text \<open>The first render: the effect runs \<^verbatim>\<open>initChat\<close> once.\<close>

definition mount :: "'chat sdk \<Rightarrow> 'chat App" where
  "mount ai = initChat ai initial_App"

text \<open>
  \<^verbatim>\<open>String.prototype.trim\<close> strips white space and line terminators. Of those, the code
  units that a \<open>char\<close> holds are tab, line feed, vertical tab, form feed, carriage return, space
  and the no-break space U+00A0.
\<close>

definition is_space :: "char \<Rightarrow> bool" where
  "is_space c =
     (c \<in> set [CHR 0x09, CHR 0x0A, CHR 0x0B, CHR 0x0C, CHR 0x0D, CHR 0x20, CHR 0xA0])"

definition trim :: "string \<Rightarrow> string" where
  "trim str = rev (dropWhile is_space (rev (dropWhile is_space str)))"

text \<open>
  \<^verbatim>\<open>handleSendMessage(textOverride?)\<close> up to its \<^verbatim>\<open>await\<close>: the new state and the outbound
  call to \<^verbatim>\<open>sendMessageToGemini\<close>, if one is made. The integer is \<^verbatim>\<open>Date.now()\<close>, which
  also stands for the \<^verbatim>\<open>new Date()\<close> taken in the same step.
\<close>

definition handleSendMessage ::
  "string option \<Rightarrow> int \<Rightarrow> 'chat App \<Rightarrow> 'chat App \<times> ('chat \<times> string) option"
where
  "handleSendMessage textOverride now s =
     (let textToSend = (if truthy textOverride
                        then (case textOverride of Some t \<Rightarrow> t | None \<Rightarrow> [])
                        else trim (inputValue s))
      in if textToSend = [] \<or> isLoading s then (s, None)
         else
           (case chatSessionRef s of
              None \<Rightarrow> (s, None)
            | Some chat \<Rightarrow>
                (s\<lparr>messages := messages s @
                      [\<lparr>msg_id = now, role = User, msg_text = textToSend, timestamp = now,
                        isError = None, msg_sources = None\<rparr>],
                   inputValue := [], isLoading := True\<rparr>,
                 Some (chat, textToSend))))"

text \<open>
  The rest of \<^verbatim>\<open>handleSendMessage\<close>, run when the awaited call settles: its outcome and
  \<^verbatim>\<open>Date.now()\<close> at that moment. The updates are functional (\<^verbatim>\<open>prev => [...prev, m]\<close>), so
  they apply to the transcript as it is then; \<^verbatim>\<open>finally\<close> clears the loading flag.
\<close>

definition handleSendMessage_settled ::
  "js_error + send_result \<Rightarrow> int \<Rightarrow> 'chat App \<Rightarrow> 'chat App"
where
  "handleSendMessage_settled outcome now s =
     (case outcome of
        Inr response \<Rightarrow>
          s\<lparr>messages := messages s @
               [\<lparr>msg_id = now + 1, role = Model,
                 msg_text = (if truthy (reply_text response)
                             then (case reply_text response of Some t \<Rightarrow> t | None \<Rightarrow> [])
                             else ''I apologize, but I couldn't generate a response. Please try again.''),
                 timestamp = now, isError = None, msg_sources = Some (sources response)\<rparr>],
            isLoading := False\<rparr>
      | Inl error \<Rightarrow>
          s\<lparr>messages := messages s @
               [\<lparr>msg_id = now + 1, role = Model,
                 msg_text = ''I'm having trouble connecting right now. Please check your internet connection and try again.'',
                 timestamp = now, isError = Some True, msg_sources = None\<rparr>],
            isLoading := False\<rparr>)"

text \<open>
  The controller together with the text requests that are in flight (issued and not settled),
  and the events that drive it. A request settles with whatever outcome the service produces.
\<close>

record 'chat world =
  app :: "'chat App"
  inflight :: "('chat \<times> string) list"

datatype event =
    Send "string option" int
  | Settle "js_error + send_result" int
  | SetMode ModelMode
  | Reset bool
  | Input string

fun step :: "'chat sdk \<Rightarrow> event \<Rightarrow> 'chat world \<Rightarrow> 'chat world" where
  "step ai (Send textOverride now) w =
     \<lparr>app = fst (handleSendMessage textOverride now (app w)),
      inflight = inflight w @
        (case snd (handleSendMessage textOverride now (app w)) of None \<Rightarrow> [] | Some call \<Rightarrow> [call])\<rparr>"
| "step ai (Settle outcome now) w =
     (case inflight w of
        [] \<Rightarrow> w
      | call # rest \<Rightarrow> \<lparr>app = handleSendMessage_settled outcome now (app w), inflight = rest\<rparr>)"
| "step ai (SetMode m) w = w\<lparr>app := setMode ai m (app w)\<rparr>"
| "step ai (Reset confirmed) w = w\<lparr>app := handleReset ai confirmed (app w)\<rparr>"
| "step ai (Input str) w = w\<lparr>app := (app w)\<lparr>inputValue := str\<rparr>\<rparr>"

definition run :: "'chat sdk \<Rightarrow> event list \<Rightarrow> 'chat world" where
  "run ai events = fold (step ai) events \<lparr>app = mount ai, inflight = []\<rparr>"

subsection \<open>Concrete inputs used by the witnesses\<close>

definition example_speech_env :: "js_error + GenerateContentResponse \<Rightarrow> speech_env" where
  "example_speech_env outcome =
     \<lparr>generateContent = (\<lambda>txt. outcome), newAudioContext = (\<lambda>rate. Inr (AudioContext rate)),
      decodeAudio = (\<lambda>b64. Inr [0, 64])\<rparr>"

definition example_response :: GenerateContentResponse where
  "example_response =
     \<lparr>response_text = Some ''Vitamin D supports bone health.'',
      candidates = Some
        [\<lparr>content = None,
          groundingMetadata = Some \<lparr>groundingChunks = Some
            [\<lparr>web = Some \<lparr>web_uri = Some ''https://who.int/d'', web_title = Some ''WHO''\<rparr>\<rparr>,
             \<lparr>web = Some \<lparr>web_uri = Some ''https://cdc.gov/d'', web_title = None\<rparr>\<rparr>,
             \<lparr>web = None\<rparr>,
             \<lparr>web = Some \<lparr>web_uri = Some ''https://who.int/d'', web_title = Some ''World Health Organization''\<rparr>\<rparr>]\<rparr>\<rparr>]\<rparr>"

definition example_open :: "unit LiveSession" where
  "example_open =
     \<lparr>inputContext = Some (AudioContext 16000), outputContext = Some (AudioContext 24000),
      stream = Some (MediaStream [0]), processor = Some (ScriptProcessorNode 4096),
      source = Some (MediaStreamAudioSourceNode (MediaStream [0])), nextStartTime = 0,
      session = Some (), isActive = True\<rparr>"

definition example_live_env :: "unit live_env" where
  "example_live_env =
     \<lparr>live_newAudioContext = (\<lambda>rate. Inr (AudioContext rate)),
      getUserMedia = Inr (MediaStream [0]), live_connect = Inr ()\<rparr>"

definition two_seconds :: AudioBuffer where
  "two_seconds = \<lparr>sampleRate = 24000, channelData = replicate 48000 0\<rparr>"

definition example_decode :: "string \<Rightarrow> js_error + AudioBuffer" where
  "example_decode base64 = Inr two_seconds"

definition audio_message :: LiveServerMessage where
  "audio_message =
     \<lparr>serverContent = Some
        \<lparr>modelTurn = Some \<lparr>parts = Some [\<lparr>inlineData = Some \<lparr>data = Some ''AAAA''\<rparr>\<rparr>]\<rparr>,
         interrupted = None\<rparr>\<rparr>"

definition interrupted_message :: LiveServerMessage where
  "interrupted_message = \<lparr>serverContent = Some \<lparr>modelTurn = None, interrupted = Some True\<rparr>\<rparr>"

definition example_sdk :: "chat_params sdk" where
  "example_sdk =
     \<lparr>chats_create = (\<lambda>params. Inr params),
      sendMessage = (\<lambda>chat message. Inl (Thrown ''API key not valid'')),
      SYSTEM_INSTRUCTION = ''You are MediGuide''\<rparr>"

definition example_chat :: "ModelMode \<Rightarrow> chat_params" where
  "example_chat m =
     \<lparr>model = MODEL_MAP m,
      config = \<lparr>systemInstruction = ''You are MediGuide'', googleSearch = True,
                thinkingBudget = (if m = Thinking then Some 32768 else None)\<rparr>\<rparr>"

definition example_pending :: "chat_params App" where
  "example_pending =
     \<lparr>messages = [\<lparr>msg_id = 1000, role = User, msg_text = ''hello'', timestamp = 1000,
                   isError = None, msg_sources = None\<rparr>],
      inputValue = ''again'', isLoading = True, isInitializing = False, mode = Standard,
      chatSessionRef = Some (example_chat Standard)\<rparr>"

section \<open>Properties\<close>

subsection \<open>Deduplication of citations\<close>

lemma Map_set_keys:
  "map fst (Map_set m k v) = (if k \<in> fst ` set m then map fst m else map fst m @ [k])"
  by (induction m k v rule: Map_set.induct) auto

lemma Map_set_map_of: "map_of (Map_set m k v) = (map_of m)(k \<mapsto> v)"
  by (induction m k v rule: Map_set.induct) (auto simp: fun_eq_iff)

lemma Map_set_distinct: "distinct (map fst m) \<Longrightarrow> distinct (map fst (Map_set m k v))"
  by (simp add: Map_set_keys)

lemma remdups_drop_later: "k \<in> set ys \<Longrightarrow> remdups (xs @ k # ys) = remdups (xs @ ys)"
  by (induction xs) auto

lemma fold_Map_set_keys:
  "distinct (map fst m) \<Longrightarrow>
   map fst (fold (\<lambda>(k, v) m. Map_set m k v) es m) = rev (remdups (rev (map fst m @ map fst es)))"
proof (induction es arbitrary: m)
  case Nil
  then show ?case by (simp add: distinct_remdups_id)
next
  case (Cons e es)
  obtain k v where e: "e = (k, v)" by (cases e)
  have d: "distinct (map fst (Map_set m k v))" using Cons.prems by (rule Map_set_distinct)
  show ?case
  proof (cases "k \<in> fst ` set m")
    case True
    then have "k \<in> set (rev (map fst m))" by simp
    then have "remdups (rev (map fst es) @ k # rev (map fst m)) = remdups (rev (map fst es) @ rev (map fst m))"
      by (rule remdups_drop_later)
    with True show ?thesis using Cons.IH [OF d] by (simp add: e Map_set_keys)
  next
    case False
    then show ?thesis using Cons.IH [OF d] by (simp add: e Map_set_keys)
  qed
qed

lemma fold_Map_set_map_of:
  "map_of (fold (\<lambda>(k, v) m. Map_set m k v) es m) = map_of m ++ map_of (rev es)"
proof (induction es arbitrary: m)
  case Nil
  then show ?case by simp
next
  case (Cons e es)
  obtain k v where e: "e = (k, v)" by (cases e)
  show ?case by (simp add: e Cons.IH Map_set_map_of fun_eq_iff map_add_def split: option.splits)
qed

lemma new_Map_keys: "map fst (new_Map es) = rev (remdups (rev (map fst es)))"
  by (simp add: new_Map_def fold_Map_set_keys)

lemma new_Map_map_of: "map_of (new_Map es) = map_of (rev es)"
  by (simp add: new_Map_def fold_Map_set_map_of)

lemma new_Map_distinct: "distinct (map fst (new_Map es))"
  by (simp add: new_Map_keys)

lemma map_of_rev_last:
  "map_of (rev (map (\<lambda>s. (f s, s)) ss)) k = Some e \<Longrightarrow> last (filter (\<lambda>s. f s = k) ss) = e \<and> f e = k \<and> e \<in> set ss"
  by (induction ss rule: rev_induct) (auto split: if_splits)

lemma new_Map_entry:
  assumes "(k, e) \<in> set (new_Map (map (\<lambda>s. (f s, s)) ss))"
  shows "last (filter (\<lambda>s. f s = k) ss) = e \<and> f e = k \<and> e \<in> set ss"
proof -
  let ?es = "map (\<lambda>s. (f s, s)) ss"
  have "map_of (new_Map ?es) k = Some e"
    using assms by (simp add: map_of_eq_Some_iff [OF new_Map_distinct])
  then have "map_of (rev ?es) k = Some e" by (simp add: new_Map_map_of)
  then show ?thesis by (rule map_of_rev_last)
qed

lemma uniqueSources_uris: "map uri (uniqueSources ss) = rev (remdups (rev (map uri ss)))"
proof -
  let ?es = "map (\<lambda>s. (uri s, s)) ss"
  have "map (uri \<circ> snd) (new_Map ?es) = map fst (new_Map ?es)"
    by (rule map_cong) (auto dest: new_Map_entry)
  then show ?thesis by (simp add: uniqueSources_def Map_values_def new_Map_keys comp_def)
qed

lemma uniqueSources_last:
  assumes "e \<in> set (uniqueSources ss)"
  shows "last (filter (\<lambda>s. uri s = uri e) ss) = e"
proof -
  from assms obtain k where k: "(k, e) \<in> set (new_Map (map (\<lambda>s. (uri s, s)) ss))"
    by (auto simp: uniqueSources_def Map_values_def)
  from new_Map_entry [OF k] show ?thesis by simp
qed


lemma remdups_snoc: "remdups (ys @ [x]) = removeAll x (remdups ys) @ [x]"
  by (induction ys) auto

lemma remdups_removeAll_commute: "remdups (removeAll x ys) = removeAll x (remdups ys)"
  by (induction ys) auto

lemma rev_removeAll_commute: "rev (removeAll x ys) = removeAll x (rev ys)"
  by (induction ys) auto

lemma first_occurrences_remdups: "first_occurrences xs = rev (remdups (rev xs))"
proof (induction xs rule: first_occurrences.induct)
  case 1
  show ?case by simp
next
  case (2 x xs)
  have "rev (remdups (rev (x # xs))) = x # rev (removeAll x (remdups (rev xs)))"
    by (simp add: remdups_snoc)
  also have "rev (removeAll x (remdups (rev xs))) = rev (remdups (rev (removeAll x xs)))"
    by (simp add: remdups_removeAll_commute rev_removeAll_commute)
  finally show ?case using 2 by simp
qed

lemma set_first_occurrences: "set (first_occurrences xs) = set xs"
  by (simp add: first_occurrences_remdups)

lemma distinct_first_occurrences: "distinct (first_occurrences xs)"
  by (simp add: first_occurrences_remdups)

text \<open>
  Claim C2. For every list of citation entries, the deduplication in \<^verbatim>\<open>sendMessageToGemini\<close>
  returns exactly one entry per distinct locator (the locators of the output are those of the
  input, without repetition); the entry kept for a locator is the last entry of the input with
  that locator, so it carries that occurrence's title; and the output is ordered by the first
  occurrence of each locator in the input.
\<close>

theorem uniqueSources_dedup:
  "map uri (uniqueSources ss) = first_occurrences (map uri ss) \<and>
   distinct (map uri (uniqueSources ss)) \<and>
   set (map uri (uniqueSources ss)) = set (map uri ss) \<and>
   (\<forall>e \<in> set (uniqueSources ss). e = last (filter (\<lambda>s. uri s = uri e) ss))"
  using uniqueSources_last
  by (simp add: uniqueSources_uris first_occurrences_remdups)

theorem uniqueSources_dedup_witness:
  "uniqueSources
     [\<lparr>title = Some ''A'', uri = Some ''u1''\<rparr>, \<lparr>title = Some ''B'', uri = Some ''u2''\<rparr>,
      \<lparr>title = Some ''C'', uri = Some ''u1''\<rparr>] =
     [\<lparr>title = Some ''C'', uri = Some ''u1''\<rparr>, \<lparr>title = Some ''B'', uri = Some ''u2''\<rparr>] \<and>
   \<lparr>title = Some ''C'', uri = Some ''u1''\<rparr> =
     last (filter (\<lambda>s. uri s = Some ''u1'')
       [\<lparr>title = Some ''A'', uri = Some ''u1''\<rparr>, \<lparr>title = Some ''B'', uri = Some ''u2''\<rparr>,
        \<lparr>title = Some ''C'', uri = Some ''u1''\<rparr>])"
  using uniqueSources_dedup
    [of "[\<lparr>title = Some ''A'', uri = Some ''u1''\<rparr>, \<lparr>title = Some ''B'', uri = Some ''u2''\<rparr>,
          \<lparr>title = Some ''C'', uri = Some ''u1''\<rparr>]"]
  by (simp add: uniqueSources_def new_Map_def Map_values_def)

subsection \<open>Citations of a chat reply\<close>

lemma array_map_Inr:
  "\<forall>x \<in> set xs. \<exists>y. f x = Inr y \<Longrightarrow>
   \<exists>ys. array_map f xs = Inr ys \<and> (\<forall>y \<in> set ys. \<exists>x \<in> set xs. f x = Inr y)"
  by (induction xs) auto

lemma to_source_kept: "has_uri_and_title c \<Longrightarrow> \<exists>y. to_source c = Inr y \<and> truthy (title y) \<and> truthy (uri y)"
  by (auto simp: has_uri_and_title_def to_source_def truthy_def split: option.splits)

lemma uniqueSources_subset: "set (uniqueSources ss) \<subseteq> set ss"
  by (auto simp: uniqueSources_def Map_values_def dest: new_Map_entry)

text \<open>
  Claim C10. For every chat response, \<^verbatim>\<open>sendMessageToGemini\<close> returns (the unguarded
  \<^verbatim>\<open>chunk.web.title\<close> is never reached on a chunk without \<^verbatim>\<open>web\<close>), and every citation entry
  of the returned list has a title and a locator that are present and not empty, and comes from
  a grounding chunk of the response that passed the filter: the chunks lacking either are
  dropped before the deduplication.
\<close>

theorem sendMessageToGemini_sources_present:
  assumes "send chat message = Inr result"
  shows "\<exists>r. sendMessageToGemini send chat message = Inr r \<and>
           (\<forall>s \<in> set (sources r).
              truthy (title s) \<and> truthy (uri s) \<and>
              (\<exists>c \<in> set (groundingChunks_of result). has_uri_and_title c \<and> to_source c = Inr s))"
proof -
  let ?kept = "filter has_uri_and_title (groundingChunks_of result)"
  have "\<forall>c \<in> set ?kept. \<exists>y. to_source c = Inr y" using to_source_kept by auto
  from array_map_Inr [OF this] obtain ys where
    ys: "array_map to_source ?kept = Inr ys" and
    each: "\<forall>s \<in> set ys. \<exists>c \<in> set ?kept. to_source c = Inr s"
    by blast
  have "truthy (title s) \<and> truthy (uri s) \<and>
        (\<exists>c \<in> set (groundingChunks_of result). has_uri_and_title c \<and> to_source c = Inr s)"
    if "s \<in> set (uniqueSources ys)" for s
  proof -
    from that have "s \<in> set ys" using uniqueSources_subset by blast
    with each obtain c where c: "c \<in> set ?kept" "to_source c = Inr s" by blast
    then have "has_uri_and_title c" by simp
    from to_source_kept [OF this] c show ?thesis by auto
  qed
  then show ?thesis by (simp add: sendMessageToGemini_def assms ys)
qed

theorem sendMessageToGemini_sources_present_witness:
  "sendMessageToGemini (\<lambda>chat message. Inr example_response) () ''vitamin d'' =
     Inr \<lparr>reply_text = Some ''Vitamin D supports bone health.'',
          sources = [\<lparr>title = Some ''World Health Organization'', uri = Some ''https://who.int/d''\<rparr>]\<rparr>"
  using sendMessageToGemini_sources_present
    [of "\<lambda>chat message. Inr example_response" "()" "''vitamin d''" example_response]
  by (simp add: sendMessageToGemini_def example_response_def groundingChunks_of_def
      has_uri_and_title_def truthy_def to_source_def uniqueSources_def new_Map_def Map_values_def)

subsection \<open>The PCM round trip\<close>

lemma int16_bytes: "or (ucast (ucast w :: byte)) (push_bit 8 (ucast (ucast (drop_bit 8 w) :: byte))) = (w :: 16 word)"
  by (rule bit_word_eqI) (auto simp: bit_simps)

lemma int16_view_encode: "int16_view (encodeForUpload xs) = map encode_sample xs"
  by (induction xs) (simp_all add: encodeForUpload_def int16_bytes)

lemma length_encode: "length (encodeForUpload xs) = 2 * length xs"
  by (induction xs) (simp_all add: encodeForUpload_def)

lemma fill_prefix:
  "n \<le> length d \<Longrightarrow> length ch = length d \<Longrightarrow>
   fold (\<lambda>i ch. ch[i := real_of_int (sint (d ! i)) / 32768]) [0..<n] ch =
   map (\<lambda>w. real_of_int (sint w) / 32768) (take n d) @ drop n ch"
proof (induction n)
  case 0
  then show ?case by simp
next
  case (Suc n)
  then have n: "n < length d" "n < length ch" by simp_all
  have "(map (\<lambda>w. real_of_int (sint w) / 32768) (take n d) @ drop n ch)[n := real_of_int (sint (d ! n)) / 32768]
        = map (\<lambda>w. real_of_int (sint w) / 32768) (take n d) @ (drop n ch)[0 := real_of_int (sint (d ! n)) / 32768]"
    using n by (simp add: list_update_append)
  also have "(drop n ch)[0 := real_of_int (sint (d ! n)) / 32768] = (real_of_int (sint (d ! n)) / 32768) # drop (Suc n) ch"
    using n by (simp add: Cons_nth_drop_Suc [symmetric])
  finally show ?case using Suc n by (simp add: take_Suc_conv_app_nth)
qed

lemma fill_channelData_map:
  "fill_channelData d (replicate (length d) 0) = map (\<lambda>w. real_of_int (sint w) / 32768) d"
  unfolding fill_channelData_def
  using fill_prefix [of "length d" d "replicate (length d) 0"] by simp

lemma pcm_to_buffer_encode:
  "pcm_to_buffer (encodeForUpload xs) =
     (if xs = [] then Inl NotSupportedError
      else Inr \<lparr>sampleRate = 24000, channelData = map (\<lambda>x. real_of_int (sint (encode_sample x)) / 32768) xs\<rparr>)"
proof -
  have "fill_channelData (map encode_sample xs) (replicate (length xs) 0) =
        map (\<lambda>x. real_of_int (sint (encode_sample x)) / 32768) xs"
    using fill_channelData_map [of "map encode_sample xs"] by (simp add: comp_def)
  then show ?thesis
    by (simp add: pcm_to_buffer_def new_Int16Array_def length_encode int16_view_encode createBuffer_def)
qed

lemma round_range:
  fixes x :: real
  assumes a: "- 1 \<le> x" "x \<le> 1"
  shows "- 32767 \<le> round (x * 32767) \<and> round (x * 32767) \<le> 32767"
proof -
  have "round (- 32767 :: real) \<le> round (x * 32767)" using a by (intro round_mono) simp
  moreover have "round (x * 32767) \<le> round (32767 :: real)" using a by (intro round_mono) simp
  ultimately show ?thesis by simp
qed

lemma sint_encode_sample:
  fixes x :: real
  assumes "- 1 \<le> x" "x \<le> 1"
  shows "sint (encode_sample x) = round (x * 32767)"
proof -
  from round_range [OF assms] have r: "- 32767 \<le> round (x * 32767)" "round (x * 32767) \<le> 32767" by simp_all
  then have "max (- 32768) (min 32767 (round (x * 32767))) = round (x * 32767)" by simp
  moreover have "sint (word_of_int (round (x * 32767)) :: 16 word) = round (x * 32767)"
    using r by (simp add: sint_sbintrunc' signed_take_bit_int_eq_self)
  ultimately show ?thesis by (simp add: encode_sample_def)
qed

lemma sample_error:
  fixes x :: real
  assumes "- 1 \<le> x" "x \<le> 1"
  shows "\<bar>real_of_int (sint (encode_sample x)) / 32768 - x\<bar> \<le> 3 / 65536"
proof -
  let ?q = "real_of_int (round (x * 32767))"
  have "\<bar>?q - x * 32767\<bar> \<le> 1 / 2" by (rule of_int_round_abs_le)
  then have "\<bar>?q / 32768 - x\<bar> \<le> 3 / 65536"
    using assms by linarith
  then show ?thesis using assms by (simp add: sint_encode_sample)
qed

text \<open>
  Claim C3, as amended. For every array of samples in \<open>[-1, 1]\<close>, decoding the encoding of
  the array (the decoder of \<^verbatim>\<open>generateSpeech\<close> applied to the bytes that the encoder of the
  spec produces) gives one sample for each input sample, each within \<open>3/65536\<close> (one and a half
  steps of \<open>1/32768\<close>) of the input, when the array is not empty; for the empty array the
  decoder's \<^verbatim>\<open>createBuffer\<close> throws. The bound \<open>1/32768\<close> of the claim does not hold:
  scaling by 32767 and dividing by 32768 already loses up to one step at full scale, and
  rounding adds up to half a step.
\<close>

theorem pcm_round_trip:
  fixes xs :: "real list"
  assumes "\<forall>x \<in> set xs. - 1 \<le> x \<and> x \<le> 1"
  shows "(xs = [] \<longrightarrow> pcm_to_buffer (encodeForUpload xs) = Inl NotSupportedError) \<and>
         (xs \<noteq> [] \<longrightarrow>
            (\<exists>b. pcm_to_buffer (encodeForUpload xs) = Inr b \<and>
                 length (channelData b) = length xs \<and>
                 (\<forall>i < length xs. \<bar>channelData b ! i - xs ! i\<bar> \<le> 3 / 65536)))"
proof (cases "xs = []")
  case True
  then show ?thesis by (simp add: pcm_to_buffer_encode)
next
  case False
  have "\<bar>real_of_int (sint (encode_sample (xs ! i))) / 32768 - xs ! i\<bar> \<le> 3 / 65536"
    if "i < length xs" for i
    using assms that by (intro sample_error) simp_all
  with False show ?thesis by (simp add: pcm_to_buffer_encode del: of_int_sint)
qed

theorem pcm_round_trip_witness:
  "- 1 \<le> (1 / 2 :: real) \<and> (1 / 2 :: real) \<le> 1 \<and> - 1 \<le> (- 1 :: real) \<and> (- 1 :: real) \<le> 1 \<and>
   [1 / 2, - 1 :: real] \<noteq> [] \<and>
   pcm_to_buffer (encodeForUpload [1 / 2, - 1]) =
     Inr \<lparr>sampleRate = 24000, channelData = [1 / 2, - 32767 / 32768]\<rparr> \<and>
   \<bar>1 / 2 - 1 / 2\<bar> \<le> (3 / 65536 :: real) \<and> \<bar>- 32767 / 32768 - (- 1)\<bar> \<le> (3 / 65536 :: real) \<and>
   pcm_to_buffer (encodeForUpload []) = Inl NotSupportedError"
  using pcm_round_trip [of "[1 / 2, - 1]"] pcm_round_trip [of "[]"]
  by (simp add: pcm_to_buffer_encode encode_sample_def round_def floor_eq_iff)

text \<open>
  The sample \<open>98305/131072 = 0.75 + 2\<^sup>-\<^sup>1\<^sup>7\<close>, a 32-bit float, is encoded as 24575 and decoded
  as \<open>24575/32768\<close>, which is \<open>5/131072\<close> below the sample: more than \<open>1/32768 = 4/131072\<close>.
\<close>

lemma round_example: "round (3221159935 / 131072 :: real) = 24575"
  by (simp add: round_def floor_eq_iff)

theorem pcm_round_trip_counterexample:
  "pcm_to_buffer (encodeForUpload [98305 / 131072]) =
     Inr \<lparr>sampleRate = 24000, channelData = [24575 / 32768]\<rparr> \<and>
   \<not> \<bar>24575 / 32768 - 98305 / 131072\<bar> \<le> (1 / 32768 :: real)"
  by (simp add: pcm_to_buffer_encode encode_sample_def round_example)

subsection \<open>Speech synthesis never rejects\<close>

text \<open>
  Claim C9. For every input text and whatever the calls outside the sources do,
  \<^verbatim>\<open>generateSpeech\<close> returns and never throws; when the synthesis call fails it returns
  \<^verbatim>\<open>null\<close>, and when the response has no audio payload it returns \<^verbatim>\<open>null\<close> as well, so the
  two cases give the caller the same value.
\<close>

theorem generateSpeech_never_throws:
  "(\<exists>r. generateSpeech env txt = Inr r) \<and>
   (\<forall>e. generateContent env txt = Inl e \<longrightarrow> generateSpeech env txt = Inr None) \<and>
   (\<forall>response. generateContent env txt = Inr response \<and> \<not> truthy (speech_payload response) \<longrightarrow>
      generateSpeech env txt = Inr None)"
  by (auto simp: generateSpeech_def generateSpeech_try_def truthy_def split: sum.splits option.splits)

theorem generateSpeech_never_throws_witness:
  "generateContent (example_speech_env (Inl (Thrown ''403''))) ''hello'' = Inl (Thrown ''403'') \<and>
   generateSpeech (example_speech_env (Inl (Thrown ''403''))) ''hello'' = Inr None \<and>
   generateContent (example_speech_env (Inr \<lparr>response_text = None, candidates = None\<rparr>)) ''hello'' =
     Inr \<lparr>response_text = None, candidates = None\<rparr> \<and>
   \<not> truthy (speech_payload \<lparr>response_text = None, candidates = None\<rparr>) \<and>
   generateSpeech (example_speech_env (Inr \<lparr>response_text = None, candidates = None\<rparr>)) ''hello'' = Inr None"
  using generateSpeech_never_throws [of "example_speech_env (Inl (Thrown ''403''))" "''hello''"]
    generateSpeech_never_throws
      [of "example_speech_env (Inr \<lparr>response_text = None, candidates = None\<rparr>)" "''hello''"]
  by (simp add: example_speech_env_def speech_payload_def truthy_def)

subsection \<open>Playback scheduling\<close>

text \<open>The open session used below is the one that \<^verbatim>\<open>connect\<close> and \<^verbatim>\<open>onopen\<close> build.\<close>

lemma example_open_reached:
  "fst (onopen (fst (connect example_live_env new_LiveSession))) = example_open"
  by (simp add: onopen_def connect_def example_live_env_def new_LiveSession_def startAudioInput_def
      example_open_def)

lemma duration_two_seconds: "duration two_seconds = 2"
  by (simp add: duration_def two_seconds_def)

lemma scheduled_append: "scheduled (es @ fs) = scheduled es @ scheduled fs"
  by (induction es rule: scheduled.induct) simp_all

lemma handleServerMessage_cases:
  assumes "handleServerMessage decode t m s = Inr (s1, effects)"
  shows "(effects = [] \<and> s1 = (if is_interrupted m then s\<lparr>nextStartTime := 0\<rparr> else s)) \<or>
         (\<exists>b. effects = [Start b (max (nextStartTime s) t), OnAudioData b] \<and>
              s1 = s\<lparr>nextStartTime := (if is_interrupted m then 0 else max (nextStartTime s) t + duration b)\<rparr>)"
  using assms
  by (auto simp: handleServerMessage_def playAudio_def split: sum.splits if_splits option.splits)

lemma back_to_back_Cons:
  "back_to_back ((t, b) # rest) \<longleftrightarrow>
     (rest = [] \<or> t + duration b \<le> fst (hd rest)) \<and> back_to_back rest"
  by (cases rest) auto

lemma handle_all_invariant:
  assumes "\<forall>(t, m) \<in> set ms. \<not> is_interrupted m"
  shows "back_to_back (scheduled (snd (handle_all decode ms s))) \<and>
         (scheduled (snd (handle_all decode ms s)) = [] \<or>
          nextStartTime s \<le> fst (hd (scheduled (snd (handle_all decode ms s)))))"
  using assms
proof (induction ms arbitrary: s)
  case Nil
  then show ?case by simp
next
  case (Cons tm ms)
  obtain t m where tm: "tm = (t, m)" by (cases tm)
  from Cons.prems tm have m: "\<not> is_interrupted m" and rest: "\<forall>(t, m) \<in> set ms. \<not> is_interrupted m"
    by auto
  show ?case
  proof (cases "handleServerMessage decode t m s")
    case (Inl e)
    then show ?thesis using Cons.IH [OF rest, of s] by (simp add: tm)
  next
    case (Inr r)
    obtain s1 effects where r: "r = (s1, effects)" by (cases r)
    from handleServerMessage_cases [OF Inr [unfolded r]] m
    consider "effects = []" "s1 = s"
      | b where "effects = [Start b (max (nextStartTime s) t), OnAudioData b]"
          "s1 = s\<lparr>nextStartTime := max (nextStartTime s) t + duration b\<rparr>"
      by auto
    then show ?thesis
    proof cases
      case 1
      then show ?thesis using Cons.IH [OF rest, of s] Inr r by (simp add: tm)
    next
      case 2
      have "nextStartTime s1 = max (nextStartTime s) t + duration b" using 2 by simp
      with Cons.IH [OF rest, of s1] show ?thesis
        using Inr r 2(1) by (simp add: tm back_to_back_Cons)
    qed
  qed
qed

text \<open>
  Claim C1, as amended. For every sequence of inbound messages none of which carries the
  interrupted flag, handled by a session in any state at any clock readings, the buffers are
  scheduled back to back: the start time of each buffer is at least the start time of the
  buffer before it plus that buffer's duration. (Each start is the maximum of the cursor and the
  clock, and the cursor then advances by the duration.)
\<close>

theorem handle_all_back_to_back:
  assumes "\<forall>(t, m) \<in> set ms. \<not> is_interrupted m"
  shows "back_to_back (scheduled (snd (handle_all decode ms s)))"
  using handle_all_invariant [OF assms, of decode s] by (rule conjunct1)


theorem handle_all_back_to_back_witness:
  "\<not> is_interrupted audio_message \<and>
   scheduled (snd (handle_all example_decode [(5, audio_message), (6, audio_message)] example_open)) =
     [(5, two_seconds), (7, two_seconds)] \<and>
   back_to_back [(5, two_seconds), (7, two_seconds)]"
  using handle_all_back_to_back [where ms = "[(5, audio_message), (6, audio_message)]"
      and decode = example_decode and s = example_open]
  by (simp add: handleServerMessage_def live_payload_def audio_message_def first_part_data_def
      truthy_def example_open_def example_decode_def playAudio_def is_interrupted_def duration_two_seconds)

text \<open>
  With an interrupted message between two buffers the second buffer starts before the first has
  ended: a two-second buffer scheduled at 5, the cursor reset, the next buffer scheduled at 6.
\<close>

theorem handle_all_overlap_counterexample:
  "scheduled (snd (handle_all example_decode
      [(5, audio_message), (5, interrupted_message), (6, audio_message)] example_open)) =
     [(5, two_seconds), (6, two_seconds)] \<and>
   \<not> back_to_back [(5, two_seconds), (6, two_seconds)]"
  by (simp add: handleServerMessage_def live_payload_def audio_message_def interrupted_message_def
      first_part_data_def truthy_def example_open_def example_decode_def playAudio_def
      is_interrupted_def duration_two_seconds)

subsection \<open>The interrupted flag\<close>

text \<open>
  Claim C4, as amended. When an inbound message carries the interrupted flag and handling it
  does not throw (which only reading the payload of a model turn without parts, or decoding the
  audio, can do), \<^verbatim>\<open>handleServerMessage\<close> sets the cursor \<^verbatim>\<open>nextStartTime\<close> to 0 and changes
  no other field; its only effects are those of playing the message's own audio, so nothing that
  was scheduled is stopped, disconnected or closed; and the next buffer played at a clock
  reading \<open>t \<ge> 0\<close> starts at \<open>t\<close>.
\<close>

theorem interrupted_resets_cursor:
  assumes "is_interrupted message"
  shows "case handleServerMessage decode currentTime message s of
           Inl e \<Rightarrow> live_payload message = Inl e \<or> (\<exists>b. decode b = Inl e)
         | Inr (s1, effects) \<Rightarrow>
             s1 = s\<lparr>nextStartTime := 0\<rparr> \<and>
             (effects = [] \<or>
              (\<exists>b. effects = [Start b (max (nextStartTime s) currentTime), OnAudioData b])) \<and>
             (\<forall>t b. 0 \<le> t \<longrightarrow>
                snd (playAudio t b s1) = (if outputContext s = None then [] else [Start b t]))"
  using assms
  by (auto simp: handleServerMessage_def playAudio_def split: sum.splits if_splits option.splits)

theorem interrupted_resets_cursor_witness:
  "is_interrupted interrupted_message \<and>
   handleServerMessage example_decode 5 interrupted_message (example_open\<lparr>nextStartTime := 7\<rparr>) =
     Inr (example_open\<lparr>nextStartTime := 0\<rparr>, []) \<and>
   snd (playAudio 6 two_seconds (example_open\<lparr>nextStartTime := 0\<rparr>)) = [Start two_seconds 6]"
  using interrupted_resets_cursor [where message = interrupted_message and decode = example_decode
      and currentTime = 5 and s = "example_open\<lparr>nextStartTime := 7\<rparr>"]
  by (simp add: handleServerMessage_def live_payload_def interrupted_message_def truthy_def
      is_interrupted_def playAudio_def example_open_def)

text \<open>
  The cursor after an interrupted message handled at clock reading 5 is 0, not 5.
\<close>

theorem interrupted_cursor_counterexample:
  "handleServerMessage example_decode 5 interrupted_message (example_open\<lparr>nextStartTime := 7\<rparr>) =
     Inr (example_open\<lparr>nextStartTime := 0\<rparr>, []) \<and>
   nextStartTime (example_open\<lparr>nextStartTime := 0\<rparr>) \<noteq> 5"
  by (simp add: handleServerMessage_def live_payload_def interrupted_message_def truthy_def
      is_interrupted_def)

subsection \<open>Errors of the realtime session\<close>

text \<open>
  The \<^verbatim>\<open>catch\<close> block of \<^verbatim>\<open>connect\<close> reports the error and then releases what
  \<^verbatim>\<open>disconnect\<close> releases.
\<close>

lemma connect_catch_cleans_like_disconnect:
  "snd (connect_catch e s) = OnError e # snd (disconnect s) \<and>
   fst (connect_catch e s) = (fst (disconnect s))\<lparr>isActive := isActive s\<rparr>"
  by (simp add: connect_catch_def disconnect_def cleanup_def)

text \<open>
  Claim C8 asks that an error of the session in any state is reported through the error
  callback and followed by the cleanup of a local disconnect. The \<^verbatim>\<open>onerror\<close> callback does
  the first only: on the open session it reports the error and releases nothing, where
  \<^verbatim>\<open>disconnect\<close> and the \<^verbatim>\<open>catch\<close> block of \<^verbatim>\<open>connect\<close> disconnect the processor and the
  source, stop the track and close both contexts.
\<close>

theorem onerror_no_cleanup:
  "onerror (Thrown ''socket'') example_open = (example_open, [OnError (Thrown ''socket'')]) \<and>
   snd (disconnect example_open) =
     [DisconnectProcessor (ScriptProcessorNode 4096),
      DisconnectSource (MediaStreamAudioSourceNode (MediaStream [0])), StopTrack 0,
      CloseContext (AudioContext 16000), CloseContext (AudioContext 24000)] \<and>
   snd (connect_catch (Thrown ''socket'') example_open) =
     OnError (Thrown ''socket'') # snd (disconnect example_open)"
  by (simp add: onerror_def disconnect_def connect_catch_def cleanup_def example_open_def)

subsection \<open>Text sends of the view controller\<close>

lemma mount_example: "mount example_sdk = initial_App\<lparr>chatSessionRef := Some (example_chat Standard), isInitializing := False\<rparr>"
  by (simp add: mount_def initChat_def createChatSession_def example_sdk_def example_chat_def initial_App_def)

lemma example_pending_reached:
  "run example_sdk [Send (Some ''hello'') 1000, Input ''again''] = \<lparr>app = example_pending, inflight = [(example_chat Standard, ''hello'')]\<rparr>"
  by (simp add: run_def mount_example handleSendMessage_def Let_def truthy_def initial_App_def
      example_pending_def)

lemma initChat_isLoading: "isLoading (initChat ai s) = isLoading s"
  by (simp add: initChat_def split: sum.splits)

lemma step_invariant:
  assumes "length (inflight w) = (if isLoading (app w) then 1 else 0)"
  shows "length (inflight (step ai e w)) = (if isLoading (app (step ai e w)) then 1 else 0)"
proof (cases e)
  case (Send textOverride now)
  then show ?thesis using assms
    by (auto simp: handleSendMessage_def Let_def split: option.splits)
next
  case (Settle outcome now)
  then show ?thesis using assms
    by (auto simp: handleSendMessage_settled_def split: list.splits sum.splits if_splits)
next
  case (SetMode m)
  then show ?thesis using assms by (simp add: setMode_def initChat_isLoading)
next
  case (Reset confirmed)
  then show ?thesis using assms by (simp add: handleReset_def initChat_isLoading)
next
  case (Input str)
  then show ?thesis using assms by simp
qed

lemma run_invariant:
  "length (inflight (run ai events)) = (if isLoading (app (run ai events)) then 1 else 0)"
proof (induction events rule: rev_induct)
  case Nil
  show ?case by (simp add: run_def mount_def initChat_isLoading initial_App_def)
next
  case (snoc e events)
  have "run ai (events @ [e]) = step ai e (run ai events)" by (simp add: run_def)
  with step_invariant [OF snoc] show ?case by simp
qed

text \<open>
  Claim C5. While a text send is in flight (\<^verbatim>\<open>isLoading\<close> is true), \<^verbatim>\<open>handleSendMessage\<close>
  with any argument makes no outbound call and leaves the state, transcript and input included,
  as it is; and in every state the controller reaches from its first render, by any sequence of
  sends, settlements, mode changes, resets and input edits, at most one text request is in
  flight and a further send changes nothing while one is.
\<close>

theorem handleSendMessage_one_in_flight:
  "(isLoading s \<longrightarrow> handleSendMessage textOverride now s = (s, None)) \<and>
   length (inflight (run ai events)) \<le> 1 \<and>
   (isLoading (app (run ai events)) \<longrightarrow>
      step ai (Send textOverride now) (run ai events) = run ai events)"
  using run_invariant [of ai events]
  by (simp add: handleSendMessage_def Let_def)

theorem handleSendMessage_one_in_flight_witness:
  "isLoading example_pending \<and>
   handleSendMessage (Some ''second'') 2000 example_pending = (example_pending, None) \<and>
   run example_sdk [Send (Some ''hello'') 1000, Input ''again''] =
     \<lparr>app = example_pending, inflight = [(example_chat Standard, ''hello'')]\<rparr> \<and>
   step example_sdk (Send (Some ''second'') 2000)
       (run example_sdk [Send (Some ''hello'') 1000, Input ''again'']) =
     run example_sdk [Send (Some ''hello'') 1000, Input ''again'']"
  using handleSendMessage_one_in_flight [where s = example_pending and textOverride = "Some ''second''"
      and now = 2000 and ai = example_sdk and events = "[Send (Some ''hello'') 1000, Input ''again'']"]
  by (simp add: example_pending_reached) (simp add: example_pending_def)

subsection \<open>Mode changes\<close>

text \<open>
  Claim C6. For every change of mode, with \<^verbatim>\<open>createChatSession\<close> returning a session for
  the new mode, the controller replaces the session it held by that fresh one, which was
  created with the model of the new mode and with the thinking budget exactly for the thinking
  mode, and resets the transcript to the empty list.
\<close>

theorem setMode_fresh_session:
  assumes "m \<noteq> mode s" and "createChatSession ai m = Inr c"
  shows "setMode ai m s =
           s\<lparr>mode := m, chatSessionRef := Some c, messages := [], isInitializing := False\<rparr> \<and>
         chats_create ai
           \<lparr>model = MODEL_MAP m,
            config = \<lparr>systemInstruction = SYSTEM_INSTRUCTION ai, googleSearch = True,
                      thinkingBudget = (if m = Thinking then Some 32768 else None)\<rparr>\<rparr> = Inr c"
  using assms by (simp add: setMode_def initChat_def createChatSession_def)

theorem setMode_fresh_session_witness:
  "Thinking \<noteq> mode example_pending \<and>
   createChatSession example_sdk Thinking = Inr (example_chat Thinking) \<and>
   setMode example_sdk Thinking example_pending =
     example_pending\<lparr>mode := Thinking, chatSessionRef := Some (example_chat Thinking),
       messages := [], isInitializing := False\<rparr> \<and>
   messages (setMode example_sdk Thinking example_pending) = [] \<and>
   thinkingBudget (config (example_chat Thinking)) = Some 32768"
  using setMode_fresh_session [of Thinking example_pending example_sdk "example_chat Thinking"]
  by (simp add: example_pending_def createChatSession_def example_sdk_def example_chat_def)

subsection \<open>A failed text send\<close>

text \<open>
  Claim C7. When the chat call throws, \<^verbatim>\<open>sendMessageToGemini\<close> rethrows, and the controller
  appends exactly one transcript entry, flagged \<^verbatim>\<open>isError\<close> and carrying the fixed fallback
  message whatever the error was, and clears the loading flag; the session it holds is kept, so
  a further send of a non-empty text goes out on it.
\<close>

theorem send_failure_entry:
  assumes "send chat txt = Inl e"
  shows "sendMessageToGemini send chat txt = Inl e \<and>
         handleSendMessage_settled (sendMessageToGemini send chat txt) now s =
           s\<lparr>messages := messages s @
                [\<lparr>msg_id = now + 1, role = Model,
                  msg_text = ''I'm having trouble connecting right now. Please check your internet connection and try again.'',
                  timestamp = now, isError = Some True, msg_sources = None\<rparr>],
             isLoading := False\<rparr> \<and>
         (\<forall>c t now'. chatSessionRef s = Some c \<and> t \<noteq> [] \<longrightarrow>
            snd (handleSendMessage (Some t) now'
                  (handleSendMessage_settled (sendMessageToGemini send chat txt) now s)) = Some (c, t))"
  using assms
  by (simp add: sendMessageToGemini_def handleSendMessage_settled_def handleSendMessage_def Let_def truthy_def)

theorem send_failure_entry_witness:
  "sendMessage example_sdk (example_chat Standard) ''hello'' = Inl (Thrown ''API key not valid'') \<and>
   messages (handleSendMessage_settled
       (sendMessageToGemini (sendMessage example_sdk) (example_chat Standard) ''hello'') 1500 example_pending) =
     messages example_pending @
       [\<lparr>msg_id = 1501, role = Model,
         msg_text = ''I'm having trouble connecting right now. Please check your internet connection and try again.'',
         timestamp = 1500, isError = Some True, msg_sources = None\<rparr>] \<and>
   chatSessionRef example_pending = Some (example_chat Standard) \<and>
   snd (handleSendMessage (Some ''retry'') 2000
         (handleSendMessage_settled
            (sendMessageToGemini (sendMessage example_sdk) (example_chat Standard) ''hello'') 1500
            example_pending)) = Some (example_chat Standard, ''retry'')"
  using send_failure_entry [of "sendMessage example_sdk" "example_chat Standard" "''hello''"
      "Thrown ''API key not valid''" 1500 example_pending]
  by (simp add: example_sdk_def example_pending_def sendMessageToGemini_def
      handleSendMessage_settled_def handleSendMessage_def Let_def truthy_def)

end
